theory Spec2Isabelle
  imports Complex_Main
begin

section \<open>Shared conventions\<close>

text \<open>
  Python floats are idealised as \<^typ>\<open>real\<close>, Python ints as \<^typ>\<open>int\<close>.
  Every exception the modelled code can raise is a value of \<open>error\<close>; a function that
  can raise returns \<open>error + 'a\<close> with \<open>Inl\<close> for the exception.
  Every call of \<open>time.time()\<close> in the source is an explicit clock-reading argument.

  The arithmetic of the model is exact. Rounding, infinities and NaN are outside it, and so
  are the exceptions that only they cause (\<open>OverflowError\<close> when a huge int meets a
  float, \<open>ValueError\<close> from \<open>int\<close> of a NaN). The statements below therefore either
  evaluate the code at inputs on which float arithmetic is exact, or are conditional on the
  call returning, or restrict the inputs to a range on which the float operation is exact.
\<close>

datatype error = ZeroDivisionError | TypeError | KeyError | ValueError

text \<open>Python's \<open>int(x)\<close> on a float truncates toward zero.\<close>

definition py_int :: "real \<Rightarrow> int" where
  "py_int x = (if 0 \<le> x then \<lfloor>x\<rfloor> else \<lceil>x\<rceil>)"

text \<open>
  Python's float \<open>x % y\<close> for \<open>y \<noteq> 0\<close>, as an exact value: the result has the sign of
  the divisor. The float operation returns this value without rounding when \<open>x\<close> and \<open>y\<close>
  have the same sign; for operands of opposite sign it adds \<open>y\<close> to a remainder and may
  round, up to \<open>y\<close> itself.
\<close>

definition py_fmod :: "real \<Rightarrow> real \<Rightarrow> real" where
  "py_fmod x y = x - y * of_int \<lfloor>x / y\<rfloor>"

section \<open>multi_intersection_coordinator.py\<close>

record NetworkConfig =
  intersections :: "string list"
  connections :: "(string \<times> string) list"
  travel_times :: "((string \<times> string) \<times> real) list"
  coordination_enabled :: bool

record NetworkMetrics =
  average_travel_time :: real
  stops_per_vehicle :: real
  coordination_quality :: real
  total_throughput :: int
  network_delay :: real

text \<open>
  A registered controller is an arbitrary object; the coordinator only asks whether it has
  a \<open>config\<close> attribute and, if so, whether that has \<open>max_cycle_time\<close>.
\<close>

datatype controller_ref = NoConfigAttr | ConfigAttr "real option"

record MultiIntersectionCoordinator =
  network_config :: NetworkConfig
  controllers_reg :: "string \<rightharpoonup> controller_ref"
  offsets_reg :: "string \<rightharpoonup> real"
  total_vehicles_processed :: int
  total_stops :: int
  total_travel_time :: real
  vehicle_count_acc :: int
  network_delay_acc :: real

definition cycle_time_of :: "(string \<rightharpoonup> controller_ref) \<Rightarrow> string \<Rightarrow> real" where
  "cycle_time_of ctrls current =
     (case ctrls current of
        None \<Rightarrow> 60
      | Some NoConfigAttr \<Rightarrow> 60
      | Some (ConfigAttr None) \<Rightarrow> 60
      | Some (ConfigAttr (Some c)) \<Rightarrow> c)"

type_synonym bfs_state = "(string \<rightharpoonup> real) \<times> string list \<times> string list"

text \<open>The \<open>for from_id, to_id in connections\<close> loop of one BFS step.\<close>

fun scan_connections ::
  "string \<Rightarrow> real \<Rightarrow> real \<Rightarrow> ((string \<times> string) \<rightharpoonup> real) \<Rightarrow> (string \<times> string) list
     \<Rightarrow> bfs_state \<Rightarrow> error + bfs_state" where
  "scan_connections current current_offset cycle_time tt [] st = Inr st"
| "scan_connections current current_offset cycle_time tt ((from_id, to_id) # cs)
       (offsets, processed, queue) =
     (if from_id = current \<and> to_id \<notin> set processed then
        (let travel_time = (case tt (from_id, to_id) of None \<Rightarrow> 0 | Some t \<Rightarrow> t) in
         if cycle_time = 0 then Inl ZeroDivisionError
         else
           (let new_offset = py_fmod (current_offset + travel_time) cycle_time in
            scan_connections current current_offset cycle_time tt cs
              (offsets(to_id \<mapsto> new_offset), processed @ [to_id], queue @ [to_id])))
      else scan_connections current current_offset cycle_time tt cs (offsets, processed, queue))"

lemma scan_connections_grows:
  "scan_connections cur co ct tt cs (offs, processed, queue) = Inr (offs', processed', queue')
   \<Longrightarrow> \<exists>new. processed' = processed @ new \<and> queue' = queue @ new \<and> distinct new
           \<and> set new \<subseteq> snd ` set cs - set processed"
proof (induction cs arbitrary: offs processed queue)
  case Nil
  then show ?case by simp
next
  case (Cons c cs)
  obtain f t where c: "c = (f, t)" by (cases c)
  show ?case
  proof (cases "f = cur \<and> t \<notin> set processed")
    case True
    with Cons.prems c have ct: "ct \<noteq> 0"
      by (auto split: if_splits)
    from Cons.prems c True ct
    have "scan_connections cur co ct tt cs
            (offs(t \<mapsto> py_fmod (co + (case tt (f, t) of None \<Rightarrow> 0 | Some x \<Rightarrow> x)) ct),
             processed @ [t], queue @ [t]) = Inr (offs', processed', queue')"
      by (simp add: Let_def)
    from Cons.IH [OF this] obtain new where
      n: "processed' = (processed @ [t]) @ new" "queue' = (queue @ [t]) @ new" "distinct new"
         "set new \<subseteq> snd ` set cs - set (processed @ [t])"
      by blast
    have "distinct (t # new)" using n(3,4) by auto
    moreover have "set (t # new) \<subseteq> snd ` set (c # cs) - set processed"
      using n(4) True c by force
    ultimately show ?thesis using n(1,2) by (intro exI [of _ "t # new"]) simp
  next
    case False
    with Cons.prems c
    have "scan_connections cur co ct tt cs (offs, processed, queue) = Inr (offs', processed', queue')"
      by (auto split: if_splits)
    from Cons.IH [OF this] show ?thesis by auto
  qed
qed

text \<open>
  The \<open>while queue\<close> loop: pop the head, read its offset and cycle time, scan the
  connections. \<open>processed\<close> is a Python set, kept here as a list for the membership test.
\<close>

function bfs_loop ::
  "(string \<rightharpoonup> controller_ref) \<Rightarrow> ((string \<times> string) \<rightharpoonup> real) \<Rightarrow> (string \<times> string) list
     \<Rightarrow> bfs_state \<Rightarrow> error + (string \<rightharpoonup> real)" where
  "bfs_loop ctrls tt conns (offsets, processed, []) = Inr offsets"
| "bfs_loop ctrls tt conns (offsets, processed, current # queue) =
     (case offsets current of
        None \<Rightarrow> Inl KeyError
      | Some current_offset \<Rightarrow>
          (case scan_connections current current_offset (cycle_time_of ctrls current) tt conns
                  (offsets, processed, queue) of
             Inl e \<Rightarrow> Inl e
           | Inr st \<Rightarrow> bfs_loop ctrls tt conns st))"
  by pat_completeness auto

termination
proof (relation "measure (\<lambda>(ctrls, tt, conns, offs, processed, queue).
                    2 * card (snd ` set conns - set processed) + length queue)", goal_cases)
  case 1
  show ?case by simp
next
  case (2 ctrls tt conns offs processed current queue co st)
  obtain offs' processed' queue' where st: "st = (offs', processed', queue')"
    by (cases st)
  from 2(2) st scan_connections_grows obtain new where
    n: "processed' = processed @ new" "queue' = queue @ new" "distinct new"
       "set new \<subseteq> snd ` set conns - set processed"
    by blast
  have fin: "finite (snd ` set conns - set processed)" by simp
  have "snd ` set conns - set processed' = (snd ` set conns - set processed) - set new"
    using n(1) by auto
  then have "card (snd ` set conns - set processed')
             = card (snd ` set conns - set processed) - card (set new)"
    using n(4) fin by (simp add: card_Diff_subset)
  moreover have "card (set new) = length new"
    using n(3) by (simp add: distinct_card)
  moreover have "length new \<le> card (snd ` set conns - set processed)"
    using n(3,4) fin by (metis card_mono distinct_card)
  ultimately show ?case using st n(2) by simp
qed


text \<open>
  \<open>calculate_offsets\<close>: the empty-\<open>travel_times\<close> shortcut, the reference intersection
  (first key of the configured intersections), the BFS, the zero fill for intersections
  the BFS did not reach, and the store into \<open>_offsets\<close>.
\<close>

definition fill_unprocessed :: "string list \<Rightarrow> (string \<rightharpoonup> real) \<Rightarrow> (string \<rightharpoonup> real)" where
  "fill_unprocessed ids offsets =
     foldl (\<lambda>offs iid. if offs iid = None then offs(iid \<mapsto> 0) else offs) offsets ids"

definition calculate_offsets ::
  "((string \<times> string) \<times> real) list \<Rightarrow> MultiIntersectionCoordinator
     \<Rightarrow> error + ((string \<rightharpoonup> real) \<times> MultiIntersectionCoordinator)" where
  "calculate_offsets tts c =
     (if tts = [] then
        Inr ((\<lambda>iid. if iid \<in> set (intersections (network_config c)) then Some 0 else None), c)
      else
        (case intersections (network_config c) of
           [] \<Rightarrow> Inr (Map.empty, c)
         | reference_intersection # _ \<Rightarrow>
             (case bfs_loop (controllers_reg c) (map_of tts) (connections (network_config c))
                     ([reference_intersection \<mapsto> 0], [reference_intersection],
                      [reference_intersection]) of
                Inl e \<Rightarrow> Inl e
              | Inr offsets \<Rightarrow>
                  (let offsets' = fill_unprocessed (intersections (network_config c)) offsets
                   in Inr (offsets', c\<lparr>offsets_reg := offsets'\<rparr>)))))"

definition get_network_metrics :: "MultiIntersectionCoordinator \<Rightarrow> NetworkMetrics" where
  "get_network_metrics c =
     (let avg_travel_time =
            (if vehicle_count_acc c > 0
             then total_travel_time c / of_int (vehicle_count_acc c) else 0);
          spv =
            (if vehicle_count_acc c > 0
             then of_int (total_stops c) / of_int (vehicle_count_acc c) else 0);
          quality =
            (if vehicle_count_acc c > 0
             then (if spv \<le> 1 then 1 - spv / 2 else max 0 (1 - spv / 4))
             else 0)
      in \<lparr>average_travel_time = avg_travel_time,
          stops_per_vehicle = spv,
          coordination_quality = quality,
          total_throughput = total_vehicles_processed c,
          network_delay = network_delay_acc c\<rparr>)"

definition update_metrics :: "real \<Rightarrow> int \<Rightarrow> MultiIntersectionCoordinator \<Rightarrow> MultiIntersectionCoordinator" where
  "update_metrics vehicle_travel_time vehicle_stops c =
     c\<lparr>total_travel_time := total_travel_time c + vehicle_travel_time,
       total_stops := total_stops c + vehicle_stops,
       vehicle_count_acc := vehicle_count_acc c + 1,
       total_vehicles_processed := total_vehicles_processed c + 1\<rparr>"

definition reset_metrics :: "MultiIntersectionCoordinator \<Rightarrow> MultiIntersectionCoordinator" where
  "reset_metrics c =
     c\<lparr>total_vehicles_processed := 0, total_stops := 0, total_travel_time := 0,
       vehicle_count_acc := 0, network_delay_acc := 0\<rparr>"

definition new_coordinator :: "NetworkConfig \<Rightarrow> MultiIntersectionCoordinator" where
  "new_coordinator cfg =
     \<lparr>network_config = cfg, controllers_reg = Map.empty, offsets_reg = Map.empty,
      total_vehicles_processed = 0, total_stops = 0, total_travel_time = 0,
      vehicle_count_acc = 0, network_delay_acc = 0\<rparr>"

definition register_intersection ::
  "string \<Rightarrow> controller_ref \<Rightarrow> MultiIntersectionCoordinator \<Rightarrow> error + MultiIntersectionCoordinator" where
  "register_intersection iid ctrl c =
     (if iid \<notin> set (intersections (network_config c)) then Inl ValueError
      else Inr (c\<lparr>controllers_reg := (controllers_reg c)(iid \<mapsto> ctrl),
                  offsets_reg := (if offsets_reg c iid = None
                                  then (offsets_reg c)(iid \<mapsto> 0) else offsets_reg c)\<rparr>))"

section \<open>models.py, signal_controller.py, advanced_signal_controller.py\<close>

datatype SignalState = RED | YELLOW | GREEN

datatype PhaseType =
  THROUGH | PROTECTED_LEFT | PROTECTED_RIGHT | PERMISSIVE_TURN | PEDESTRIAN | EMERGENCY

record SignalPhase =
  phase_type :: PhaseType
  lanes :: "string list"
  duration :: real
  state :: SignalState

record StateTransition =
  lane :: string
  old_state :: SignalState
  new_state :: SignalState
  timestamp :: real

record SignalPlan =
  phases :: "SignalPhase list"
  total_cycle_time :: real
  emergency_override :: bool

record SignalConfig =
  min_green :: int
  max_green :: int
  yellow_duration :: int
  min_cycle_time :: int
  max_cycle_time :: int
  fairness_threshold :: real
  fairness_boost_factor :: real

definition default_config :: SignalConfig where
  "default_config =
     \<lparr>min_green = 10, max_green = 60, yellow_duration = 3, min_cycle_time = 40,
      max_cycle_time = 180, fairness_threshold = 120, fairness_boost_factor = 3 / 2\<rparr>"

record LaneData =
  vehicle_count :: int
  queue_length :: real
  wait_time :: real
  vehicle_types :: "(string \<times> int) list"
  has_emergency :: bool
  pedestrian_count :: int

text \<open>
  The controller object: the fields of \<open>SignalController\<close> (\<open>ctl_*\<close> are its
  \<open>min_green\<close>, \<open>max_green\<close>, \<open>yellow_duration\<close> attributes) followed by those of
  \<open>AdvancedSignalController\<close>. The lane-state dictionaries are maps; the dictionaries
  whose iteration order the code depends on are association lists.
\<close>

record AdvancedSignalController =
  config :: SignalConfig
  ctl_min_green :: int
  ctl_max_green :: int
  ctl_yellow_duration :: int
  states :: "string \<rightharpoonup> SignalState"
  green_times :: "string \<rightharpoonup> int"
  remaining_times :: "string \<rightharpoonup> real"
  active_lane :: "string option"
  lane_queue :: "string list"
  last_green_times :: "string \<rightharpoonup> real"
  emergency_active :: bool
  emergency_lane :: "string option"
  emergency_start_time :: "real option"
  manual_override_active :: bool
  manual_override_lane :: "string option"
  manual_override_end_time :: "real option"
  current_plan :: "SignalPlan option"
  current_phase_index :: nat
  phase_start_time :: real
  pending_pedestrian_phases :: "(string \<times> int) list"
  pending_turn_phases :: "(string \<times> PhaseType \<times> int) list"
  transition_history :: "StateTransition list"

definition new_controller :: "SignalConfig \<Rightarrow> AdvancedSignalController" where
  "new_controller cfg =
     \<lparr>config = cfg,
      ctl_min_green = min_green cfg, ctl_max_green = max_green cfg,
      ctl_yellow_duration = yellow_duration cfg,
      states = Map.empty, green_times = Map.empty, remaining_times = Map.empty,
      active_lane = None, lane_queue = [],
      last_green_times = Map.empty,
      emergency_active = False, emergency_lane = None, emergency_start_time = None,
      manual_override_active = False, manual_override_lane = None,
      manual_override_end_time = None,
      current_plan = None, current_phase_index = 0, phase_start_time = 0,
      pending_pedestrian_phases = [], pending_turn_phases = [],
      transition_history = []\<rparr>"

subsection \<open>The base controller's cycle\<close>

definition advance_to_next_lane :: "AdvancedSignalController \<Rightarrow> error + AdvancedSignalController" where
  "advance_to_next_lane s =
     (case lane_queue s of
        [] \<Rightarrow> Inr (s\<lparr>active_lane := None\<rparr>)
      | next_lane # rest \<Rightarrow>
          (case green_times s next_lane of
             None \<Rightarrow> Inl KeyError
           | Some g \<Rightarrow>
               Inr (s\<lparr>lane_queue := rest,
                      states := (states s)(next_lane \<mapsto> GREEN),
                      remaining_times := (remaining_times s)(next_lane \<mapsto> of_int g),
                      active_lane := Some next_lane\<rparr>)))"

definition start_cycle :: "(string \<times> int) list \<Rightarrow> AdvancedSignalController \<Rightarrow> error + AdvancedSignalController" where
  "start_cycle gts s =
     advance_to_next_lane
       (s\<lparr>green_times := map_of gts,
          states := map_of (map (\<lambda>(l, g). (l, RED)) gts),
          remaining_times := map_of (map (\<lambda>(l, g). (l, 0)) gts),
          lane_queue := map fst (sort_key (\<lambda>(l, g). - g) gts),
          active_lane := None\<rparr>)"

definition base_update_state :: "real \<Rightarrow> AdvancedSignalController \<Rightarrow> error + AdvancedSignalController" where
  "base_update_state elapsed_time s =
     (case active_lane s of
        None \<Rightarrow> Inr s
      | Some al \<Rightarrow>
          (case remaining_times s al of
             None \<Rightarrow> Inl KeyError
           | Some r \<Rightarrow>
               (let s1 = s\<lparr>remaining_times := (remaining_times s)(al \<mapsto> r - elapsed_time)\<rparr> in
                if r - elapsed_time \<le> 0 then
                  (case states s1 al of
                     None \<Rightarrow> Inl KeyError
                   | Some current_state \<Rightarrow>
                       if current_state = GREEN then
                         Inr (s1\<lparr>states := (states s1)(al \<mapsto> YELLOW),
                                 remaining_times :=
                                   (remaining_times s1)(al \<mapsto> of_int (ctl_yellow_duration s1))\<rparr>)
                       else if current_state = YELLOW then
                         advance_to_next_lane
                           (s1\<lparr>states := (states s1)(al \<mapsto> RED),
                               remaining_times := (remaining_times s1)(al \<mapsto> 0)\<rparr>)
                       else Inr s1)
                else Inr s1)))"


subsection \<open>Priorities and green-time allocation\<close>

text \<open>The loop over \<open>data.vehicle_types.items()\<close>.\<close>

definition type_weight_of :: "(string \<times> int) list \<Rightarrow> real" where
  "type_weight_of vts =
     foldl (\<lambda>type_weight (vehicle_type, count).
              if vehicle_type = ''bus'' then type_weight + of_int count * 2
              else if vehicle_type = ''truck'' then type_weight + of_int count * (3 / 2)
              else if vehicle_type = ''bicycle'' then type_weight + of_int count * (4 / 5)
              else type_weight + of_int count * 1) 0 vts"

definition fairness_boost_of :: "SignalConfig \<Rightarrow> (string \<rightharpoonup> real) \<Rightarrow> real \<Rightarrow> string \<Rightarrow> real" where
  "fairness_boost_of cfg lgt current_time lname =
     (let last_green = (case lgt lname of None \<Rightarrow> 0 | Some t \<Rightarrow> t) in
      if last_green > 0 then
        (let time_since_green = current_time - last_green in
         if time_since_green > fairness_threshold cfg
         then (time_since_green - fairness_threshold cfg) * fairness_boost_factor cfg
         else 0)
      else 0)"

definition lane_priority ::
  "SignalConfig \<Rightarrow> (string \<rightharpoonup> real) \<Rightarrow> real \<Rightarrow> string \<Rightarrow> LaneData \<Rightarrow> real" where
  "lane_priority cfg lgt current_time lname data =
     (let count_factor = of_int (vehicle_count data) * 1;
          queue_factor = queue_length data * (1 / 2);
          wait_factor = wait_time data * (3 / 10);
          type_factor = type_weight_of (vehicle_types data) * (1 / 5);
          fairness_boost = fairness_boost_of cfg lgt current_time lname;
          priority = count_factor + queue_factor + wait_factor + type_factor + fairness_boost
      in max 0 priority)"

definition calculate_priorities ::
  "AdvancedSignalController \<Rightarrow> real \<Rightarrow> (string \<times> LaneData) list \<Rightarrow> (string \<times> real) list" where
  "calculate_priorities s current_time lane_data =
     map (\<lambda>(lname, data). (lname, lane_priority (config s) (last_green_times s) current_time lname data))
       lane_data"

text \<open>
  The proportional branch of \<open>_allocate_green_times\<close>, one lane per step. The code
  truncates the rounded float product \<open>base_time * ratio\<close>, which can lie just below an
  integer that the exact product reaches, so the second allocated before clamping can
  differ by one from the exact value used here. The bounds proved below come from the
  clamps and hold for any value of that product.
\<close>

definition green_time_for :: "SignalConfig \<Rightarrow> real \<Rightarrow> real \<Rightarrow> LaneData \<Rightarrow> int" where
  "green_time_for cfg total_priority priority data =
     (let ratio = priority / total_priority;
          time_allocated = py_int (60 * ratio);
          time_allocated = max (min_green cfg) (min (max_green cfg) time_allocated)
      in if queue_length data > 50 then
           (let extra_time = min 10 (py_int (queue_length data / 10))
            in min (max_green cfg) (time_allocated + extra_time))
         else time_allocated)"

fun allocate_each ::
  "SignalConfig \<Rightarrow> real \<Rightarrow> (string \<rightharpoonup> LaneData) \<Rightarrow> (string \<times> real) list
     \<Rightarrow> error + (string \<times> int) list" where
  "allocate_each cfg total_priority ld [] = Inr []"
| "allocate_each cfg total_priority ld ((lname, priority) # rest) =
     (case ld lname of
        None \<Rightarrow> Inl KeyError
      | Some data \<Rightarrow>
          (case allocate_each cfg total_priority ld rest of
             Inl e \<Rightarrow> Inl e
           | Inr gts \<Rightarrow> Inr ((lname, green_time_for cfg total_priority priority data) # gts)))"

definition allocate_green_times ::
  "SignalConfig \<Rightarrow> (string \<times> real) list \<Rightarrow> (string \<times> LaneData) list
     \<Rightarrow> error + (string \<times> int) list" where
  "allocate_green_times cfg priorities lane_data =
     (let total_priority = sum_list (map snd priorities) in
      if total_priority = 0 then Inr (map (\<lambda>(lname, p). (lname, min_green cfg)) priorities)
      else allocate_each cfg total_priority (map_of lane_data) priorities)"

subsection \<open>Phase construction\<close>

definition through_phases :: "SignalConfig \<Rightarrow> (string \<times> int) list \<Rightarrow> SignalPhase list" where
  "through_phases cfg gts =
     concat (map (\<lambda>(lname, d).
                    if d \<le> 0 then []
                    else [\<lparr>phase_type = THROUGH, lanes = [lname], duration = of_int d, state = GREEN\<rparr>,
                          \<lparr>phase_type = THROUGH, lanes = [lname],
                           duration = of_int (yellow_duration cfg), state = YELLOW\<rparr>])
                 (sort_key (\<lambda>(lname, d). - d) gts))"

definition pedestrian_phases :: "(string \<times> int) list \<Rightarrow> SignalPhase list" where
  "pedestrian_phases pend =
     map (\<lambda>(crosswalk, demand).
            \<lparr>phase_type = PEDESTRIAN, lanes = [crosswalk],
             duration = 7 + (of_int demand - 1) * 1, state = GREEN\<rparr>) pend"

definition turn_phases :: "SignalConfig \<Rightarrow> (string \<times> PhaseType \<times> int) list \<Rightarrow> SignalPhase list" where
  "turn_phases cfg pend =
     concat (map (\<lambda>(lname, pt, demand).
                    [\<lparr>phase_type = pt, lanes = [lname],
                      duration = of_int (max 10 (min 30 (demand * 3))), state = GREEN\<rparr>,
                     \<lparr>phase_type = pt, lanes = [lname],
                      duration = of_int (yellow_duration cfg), state = YELLOW\<rparr>]) pend)"

definition create_phases ::
  "(string \<times> int) list \<Rightarrow> AdvancedSignalController \<Rightarrow> SignalPhase list \<times> AdvancedSignalController" where
  "create_phases gts s =
     (through_phases (config s) gts @ pedestrian_phases (pending_pedestrian_phases s)
        @ turn_phases (config s) (pending_turn_phases s),
      s\<lparr>pending_pedestrian_phases := [], pending_turn_phases := []\<rparr>)"

definition create_emergency_plan ::
  "real \<Rightarrow> string \<Rightarrow> AdvancedSignalController \<Rightarrow> SignalPlan \<times> AdvancedSignalController" where
  "create_emergency_plan t_plan em_lane s =
     (let plan = \<lparr>phases = [\<lparr>phase_type = EMERGENCY, lanes = [em_lane], duration = 30,
                               state = GREEN\<rparr>],
                  total_cycle_time = 30, emergency_override = True\<rparr>
      in (plan, s\<lparr>current_plan := Some plan, current_phase_index := 0,
                   phase_start_time := t_plan\<rparr>))"

subsection \<open>allocate_time\<close>

definition scale_phases :: "real \<Rightarrow> SignalPhase list \<Rightarrow> SignalPhase list" where
  "scale_phases scale_factor ps = map (\<lambda>p. p\<lparr>duration := duration p * scale_factor\<rparr>) ps"

text \<open>
  The cycle-time enforcement. A division by a zero phase-duration sum raises
  \<open>ZeroDivisionError\<close>.
\<close>

definition enforce_cycle_time :: "SignalConfig \<Rightarrow> SignalPhase list \<Rightarrow> error + (SignalPhase list \<times> real)" where
  "enforce_cycle_time cfg ps =
     (let cycle_total = sum_list (map duration ps) in
      if cycle_total < of_int (min_cycle_time cfg) then
        (if cycle_total = 0 then Inl ZeroDivisionError
         else Inr (scale_phases (of_int (min_cycle_time cfg) / cycle_total) ps,
                   of_int (min_cycle_time cfg)))
      else if cycle_total > of_int (max_cycle_time cfg) then
        (if cycle_total = 0 then Inl ZeroDivisionError
         else Inr (scale_phases (of_int (max_cycle_time cfg) / cycle_total) ps,
                   of_int (max_cycle_time cfg)))
      else Inr (ps, cycle_total))"

text \<open>\<open>next((lane for lane, data in lane_data.items() if data.has_emergency), None)\<close>\<close>

definition first_emergency_lane :: "(string \<times> LaneData) list \<Rightarrow> string option" where
  "first_emergency_lane lane_data =
     map_option fst (find (\<lambda>(lname, data). has_emergency data) lane_data)"

text \<open>The part of \<open>allocate_time\<close> after the emergency check.\<close>

definition allocate_normal ::
  "real \<Rightarrow> real \<Rightarrow> (string \<times> LaneData) list \<Rightarrow> AdvancedSignalController
     \<Rightarrow> error + (SignalPlan \<times> AdvancedSignalController)" where
  "allocate_normal t_prio t_plan lane_data s =
     (let priorities = calculate_priorities s t_prio lane_data in
      case allocate_green_times (config s) priorities lane_data of
        Inl e \<Rightarrow> Inl e
      | Inr gts \<Rightarrow>
          (let (ps, s1) = create_phases gts s in
           case enforce_cycle_time (config s1) ps of
             Inl e \<Rightarrow> Inl e
           | Inr (ps', cycle_total) \<Rightarrow>
               (let plan = \<lparr>phases = ps', total_cycle_time = cycle_total, emergency_override = False\<rparr>
                in Inr (plan, s1\<lparr>current_plan := Some plan, current_phase_index := 0,
                                  phase_start_time := t_plan\<rparr>))))"

text \<open>
  \<open>allocate_time\<close>. \<open>t_prio\<close> is the clock read in \<open>_calculate_priorities\<close>, \<open>t_plan\<close> the
  one stored as \<open>_phase_start_time\<close>. \<open>if emergency_lane:\<close> tests the truthiness of the
  lane name: \<open>None\<close> and the empty string both fall through to the normal allocation.
\<close>

definition allocate_time ::
  "real \<Rightarrow> real \<Rightarrow> (string \<times> LaneData) list \<Rightarrow> AdvancedSignalController
     \<Rightarrow> error + (SignalPlan \<times> AdvancedSignalController)" where
  "allocate_time t_prio t_plan lane_data s =
     (let emergency_override = list_ex (\<lambda>(lname, data). has_emergency data) lane_data in
      if emergency_override then
        (case first_emergency_lane lane_data of
           None \<Rightarrow> allocate_normal t_prio t_plan lane_data s
         | Some em_lane \<Rightarrow>
             if em_lane \<noteq> [] then Inr (create_emergency_plan t_plan em_lane s)
             else allocate_normal t_prio t_plan lane_data s)
      else allocate_normal t_prio t_plan lane_data s)"

definition add_pedestrian_phase :: "string \<Rightarrow> int \<Rightarrow> AdvancedSignalController \<Rightarrow> AdvancedSignalController" where
  "add_pedestrian_phase crosswalk demand s =
     s\<lparr>pending_pedestrian_phases := pending_pedestrian_phases s @ [(crosswalk, demand)]\<rparr>"

definition add_turn_phase ::
  "string \<Rightarrow> PhaseType \<Rightarrow> int \<Rightarrow> AdvancedSignalController \<Rightarrow> AdvancedSignalController" where
  "add_turn_phase lname pt demand s =
     s\<lparr>pending_turn_phases := pending_turn_phases s @ [(lname, pt, demand)]\<rparr>"

subsection \<open>Emergency and manual override\<close>

text \<open>
  \<open>handle_emergency\<close> reads the clock three times: for \<open>_emergency_start_time\<close>, inside
  \<open>_create_emergency_plan\<close>, and for the recorded transition.
\<close>

definition handle_emergency ::
  "real \<Rightarrow> real \<Rightarrow> real \<Rightarrow> string \<Rightarrow> AdvancedSignalController \<Rightarrow> AdvancedSignalController" where
  "handle_emergency t_start t_plan t_tr em_lane s =
     (let s1 = s\<lparr>emergency_active := True, emergency_lane := Some em_lane,
                 emergency_start_time := Some t_start\<rparr>;
          (plan, s2) = create_emergency_plan t_plan em_lane s1
      in case states s2 em_lane of
           None \<Rightarrow> s2
         | Some old \<Rightarrow>
             s2\<lparr>states := (\<lambda>lname. if lname = em_lane then Some GREEN
                                 else map_option (\<lambda>_. RED) (states s2 lname)),
                transition_history := transition_history s2 @
                  [\<lparr>lane = em_lane, old_state = old, new_state = GREEN, timestamp = t_tr\<rparr>]\<rparr>)"

definition override_signal ::
  "real \<Rightarrow> real \<Rightarrow> string \<Rightarrow> SignalState \<Rightarrow> real \<Rightarrow> AdvancedSignalController
     \<Rightarrow> error + AdvancedSignalController" where
  "override_signal t_end t_tr lname st dur s =
     (case states s lname of
        None \<Rightarrow> Inl ValueError
      | Some old \<Rightarrow>
          Inr (s\<lparr>states := (states s)(lname \<mapsto> st),
                 manual_override_active := True,
                 manual_override_lane := Some lname,
                 manual_override_end_time := Some (t_end + dur),
                 transition_history := transition_history s @
                   [\<lparr>lane = lname, old_state = old, new_state = st, timestamp = t_tr\<rparr>]\<rparr>))"

definition clear_emergency :: "AdvancedSignalController \<Rightarrow> AdvancedSignalController" where
  "clear_emergency s =
     s\<lparr>emergency_active := False, emergency_lane := None, emergency_start_time := None\<rparr>"

definition get_current_states :: "AdvancedSignalController \<Rightarrow> (string \<rightharpoonup> SignalState)" where
  "get_current_states s = states s"

subsection \<open>update_state\<close>

type_synonym lane_acc = "(string \<rightharpoonup> SignalState) \<times> (string \<rightharpoonup> real) \<times> StateTransition list"

text \<open>The loop over the lanes of the phase that has just completed.\<close>

fun finish_lanes :: "SignalState \<Rightarrow> real \<Rightarrow> string list \<Rightarrow> lane_acc \<Rightarrow> lane_acc" where
  "finish_lanes pst now [] acc = acc"
| "finish_lanes pst now (lname # rest) (sts, lgt, trs) =
     (case sts lname of
        None \<Rightarrow> finish_lanes pst now rest (sts, lgt, trs)
      | Some old \<Rightarrow>
          (let new = (if pst = GREEN then YELLOW else if pst = YELLOW then RED else RED)
           in finish_lanes pst now rest
                (sts(lname \<mapsto> new),
                 (if old = GREEN then lgt(lname \<mapsto> now) else lgt),
                 trs @ [\<lparr>lane = lname, old_state = old, new_state = new, timestamp = now\<rparr>])))"

text \<open>The loop over the lanes of the next phase.\<close>

fun start_lanes ::
  "SignalState \<Rightarrow> real \<Rightarrow> string list \<Rightarrow> (string \<rightharpoonup> SignalState) \<times> StateTransition list
     \<Rightarrow> (string \<rightharpoonup> SignalState) \<times> StateTransition list" where
  "start_lanes pst now [] acc = acc"
| "start_lanes pst now (lname # rest) (sts, trs) =
     (case sts lname of
        None \<Rightarrow> start_lanes pst now rest (sts, trs)
      | Some old \<Rightarrow>
          start_lanes pst now rest
            (sts(lname \<mapsto> pst),
             trs @ [\<lparr>lane = lname, old_state = old, new_state = pst, timestamp = now\<rparr>]))"

definition fallback_update ::
  "real \<Rightarrow> AdvancedSignalController \<Rightarrow> error + (StateTransition list \<times> AdvancedSignalController)" where
  "fallback_update elapsed_time s =
     (case base_update_state elapsed_time s of Inl e \<Rightarrow> Inl e | Inr s' \<Rightarrow> Inr ([], s'))"

text \<open>The plan-driven part of \<open>update_state\<close>, after the override and emergency checks.\<close>

definition run_plan ::
  "real \<Rightarrow> real \<Rightarrow> AdvancedSignalController
     \<Rightarrow> error + (StateTransition list \<times> AdvancedSignalController)" where
  "run_plan current_time elapsed_time s =
     (case current_plan s of
        None \<Rightarrow> fallback_update elapsed_time s
      | Some plan \<Rightarrow>
          if current_phase_index s < length (phases plan) then
            (let current_phase = phases plan ! current_phase_index s;
                 phase_elapsed = current_time - phase_start_time s
             in if phase_elapsed \<ge> duration current_phase then
                  (let (sts, lgt, trs) =
                         finish_lanes (state current_phase) current_time (lanes current_phase)
                           (states s, last_green_times s, []);
                       idx = current_phase_index s + 1;
                       (sts', trs') =
                         (if idx < length (phases plan)
                          then start_lanes (state (phases plan ! idx)) current_time
                                 (lanes (phases plan ! idx)) (sts, trs)
                          else (sts, trs))
                   in Inr (trs', s\<lparr>states := sts', last_green_times := lgt,
                                    current_phase_index := idx,
                                    phase_start_time := current_time\<rparr>))
                else Inr ([], s))
          else fallback_update elapsed_time s)"

text \<open>
  \<open>self._emergency_start_time and (current_time - self._emergency_start_time) >= 30.0\<close>:
  \<open>None\<close> and \<open>0.0\<close> are both falsy.
\<close>

definition emergency_expired :: "real option \<Rightarrow> real \<Rightarrow> bool" where
  "emergency_expired st current_time =
     (case st of None \<Rightarrow> False | Some t \<Rightarrow> t \<noteq> 0 \<and> current_time - t \<ge> 30)"

text \<open>
  \<open>update_state\<close>. Comparing the clock with an unset \<open>_manual_override_end_time\<close>
  raises \<open>TypeError\<close>.
\<close>

definition update_state ::
  "real \<Rightarrow> real \<Rightarrow> AdvancedSignalController
     \<Rightarrow> error + (StateTransition list \<times> AdvancedSignalController)" where
  "update_state current_time elapsed_time s =
     (if manual_override_active s then
        (case manual_override_end_time s of
           None \<Rightarrow> Inl TypeError
         | Some t_end \<Rightarrow>
             if current_time \<ge> t_end then
               (let s1 = s\<lparr>manual_override_active := False, manual_override_lane := None\<rparr> in
                if emergency_active s1 then
                  (if emergency_expired (emergency_start_time s1) current_time
                   then run_plan current_time elapsed_time (clear_emergency s1)
                   else Inr ([], s1))
                else run_plan current_time elapsed_time s1)
             else Inr ([], s))
      else if emergency_active s then
        (if emergency_expired (emergency_start_time s) current_time
         then run_plan current_time elapsed_time (clear_emergency s)
         else Inr ([], s))
      else run_plan current_time elapsed_time s)"


section \<open>Concrete inputs\<close>

definition net0 :: NetworkConfig where
  "net0 = \<lparr>intersections = [''A''], connections = [], travel_times = [],
            coordination_enabled = True\<rparr>"

definition net_ab :: NetworkConfig where
  "net_ab = \<lparr>intersections = [''A'', ''B''], connections = [(''A'', ''B'')],
             travel_times = [((''A'', ''B''), 70)], coordination_enabled = True\<rparr>"

text \<open>The network \<open>A \<rightarrow> B\<close> with both controllers registered, with the given cycle times.\<close>

definition coord_ab :: "real \<Rightarrow> real \<Rightarrow> MultiIntersectionCoordinator" where
  "coord_ab ca cb =
     (new_coordinator net_ab)\<lparr>controllers_reg :=
        [''A'' \<mapsto> ConfigAttr (Some ca), ''B'' \<mapsto> ConfigAttr (Some cb)]\<rparr>"

text \<open>The offset a call of \<open>calculate_offsets\<close> returned for one intersection.\<close>

definition offset_of ::
  "error + ((string \<rightharpoonup> real) \<times> MultiIntersectionCoordinator) \<Rightarrow> string \<Rightarrow> real option" where
  "offset_of r iid = (case r of Inl e \<Rightarrow> None | Inr (offs, c) \<Rightarrow> offs iid)"


text \<open>A run of consecutive \<open>update_state\<close> calls, each with its clock reading and argument.\<close>
fun update_all ::
  "(real \<times> real) list \<Rightarrow> AdvancedSignalController
     \<Rightarrow> error + (StateTransition list list \<times> AdvancedSignalController)" where
  "update_all [] s = Inr ([], s)"
| "update_all ((now, elapsed) # rest) s =
     (case update_state now elapsed s of
        Inl e \<Rightarrow> Inl e
      | Inr (trs, s') \<Rightarrow>
          (case update_all rest s' of
             Inl e \<Rightarrow> Inl e
           | Inr (trss, s'') \<Rightarrow> Inr (trs # trss, s'')))"

text \<open>Two configured lanes, as in the unit test of \<open>handle_emergency\<close>.\<close>

definition two_lanes :: AdvancedSignalController where
  "two_lanes =
     (new_controller default_config)\<lparr>states := [''north'' \<mapsto> RED, ''south'' \<mapsto> GREEN]\<rparr>"

text \<open>The fairness boost as the specification writes it.\<close>

definition spec_fairness_boost :: "SignalConfig \<Rightarrow> real \<Rightarrow> real" where
  "spec_fairness_boost cfg time_since_last_green =
     max 0 ((time_since_last_green - fairness_threshold cfg) * fairness_boost_factor cfg)"

text \<open>
  The four demand terms of a lane's priority as the specification writes them, with the
  weights of the code, and the specification's priority: their sum with the boost,
  floored at 0.
\<close>

definition demand_score :: "LaneData \<Rightarrow> real" where
  "demand_score d =
     of_int (vehicle_count d) * 1 + queue_length d * (1 / 2) + wait_time d * (3 / 10)
       + type_weight_of (vehicle_types d) * (1 / 5)"

definition spec_priority :: "SignalConfig \<Rightarrow> real \<Rightarrow> LaneData \<Rightarrow> real" where
  "spec_priority cfg time_since_last_green d =
     max 0 (demand_score d + spec_fairness_boost cfg time_since_last_green)"

text \<open>A lane whose only demand is a vehicle count.\<close>

definition lane_demand :: "int \<Rightarrow> LaneData" where
  "lane_demand n = \<lparr>vehicle_count = n, queue_length = 0, wait_time = 0, vehicle_types = [],
                     has_emergency = False, pedestrian_count = 0\<rparr>"

text \<open>
  An active manual override has its end time set, as \<open>override_signal\<close> (the only code that
  activates one) leaves it.
\<close>

definition override_wf :: "AdvancedSignalController \<Rightarrow> bool" where
  "override_wf s = (\<not> manual_override_active s \<or> manual_override_end_time s \<noteq> None)"


text \<open>
  A call of the public interface with its arguments, and what it returned. \<open>run\<close> executes
  a sequence of calls; each call comes with the clock readings it makes (\<open>update_state\<close>
  reads the clock once and uses the first of the pair).
\<close>

datatype call = AllocateTime "(string \<times> LaneData) list" | UpdateState real

datatype call_result = PlanOut SignalPlan | TransitionsOut "StateTransition list"

fun run_call ::
  "real \<times> real \<Rightarrow> call \<Rightarrow> AdvancedSignalController \<Rightarrow> error + (call_result \<times> AdvancedSignalController)" where
  "run_call (t1, t2) (AllocateTime lane_data) s =
     (case allocate_time t1 t2 lane_data s of Inl e \<Rightarrow> Inl e | Inr (plan, s') \<Rightarrow> Inr (PlanOut plan, s'))"
| "run_call (t1, t2) (UpdateState elapsed_time) s =
     (case update_state t1 elapsed_time s of Inl e \<Rightarrow> Inl e | Inr (trs, s') \<Rightarrow> Inr (TransitionsOut trs, s'))"

fun run ::
  "((real \<times> real) \<times> call) list \<Rightarrow> AdvancedSignalController
     \<Rightarrow> error + (call_result list \<times> AdvancedSignalController)" where
  "run [] s = Inr ([], s)"
| "run ((clk, c) # rest) s =
     (case run_call clk c s of
        Inl e \<Rightarrow> Inl e
      | Inr (out, s') \<Rightarrow>
          (case run rest s' of Inl e \<Rightarrow> Inl e | Inr (outs, s'') \<Rightarrow> Inr (out # outs, s'')))"

text \<open>Two configured lanes, both red, no plan yet.\<close>

definition all_red :: AdvancedSignalController where
  "all_red = (new_controller default_config)\<lparr>states := [''north'' \<mapsto> RED, ''south'' \<mapsto> RED]\<rparr>"

definition demand_3_1 :: "(string \<times> LaneData) list" where
  "demand_3_1 = [(''north'', lane_demand 3), (''south'', lane_demand 1)]"

text \<open>The plan the default configuration allocates for \<open>demand_3_1\<close>.\<close>

definition plan_3_1 :: SignalPlan where
  "plan_3_1 = \<lparr>phases =
        [\<lparr>phase_type = THROUGH, lanes = [''north''], duration = 45, state = GREEN\<rparr>,
         \<lparr>phase_type = THROUGH, lanes = [''north''], duration = 3, state = YELLOW\<rparr>,
         \<lparr>phase_type = THROUGH, lanes = [''south''], duration = 15, state = GREEN\<rparr>,
         \<lparr>phase_type = THROUGH, lanes = [''south''], duration = 3, state = YELLOW\<rparr>],
        total_cycle_time = 66, emergency_override = False\<rparr>"

text \<open>\<open>self._current_plan and self._current_phase_index < len(self._current_plan.phases)\<close>\<close>

definition plan_active :: "AdvancedSignalController \<Rightarrow> bool" where
  "plan_active s =
     (case current_plan s of None \<Rightarrow> False
      | Some plan \<Rightarrow> current_phase_index s < length (phases plan))"

text \<open>\<open>all_red\<close> with \<open>plan_3_1\<close> installed at clock reading 0.\<close>

definition mid_plan :: AdvancedSignalController where
  "mid_plan = all_red\<lparr>current_plan := Some plan_3_1, current_phase_index := 0,
                       phase_start_time := 0\<rparr>"








section \<open>Coordination quality\<close>

lemma quality_cases:
  "coordination_quality (get_network_metrics c) =
     (if vehicle_count_acc c > 0 then
        (if stops_per_vehicle (get_network_metrics c) \<le> 1
         then 1 - stops_per_vehicle (get_network_metrics c) / 2
         else max 0 (1 - stops_per_vehicle (get_network_metrics c) / 4))
      else 0)"
  by (simp add: get_network_metrics_def Let_def)

lemma spv_nonneg:
  "vehicle_count_acc c > 0 \<Longrightarrow> total_stops c \<ge> 0
   \<Longrightarrow> 0 \<le> stops_per_vehicle (get_network_metrics c)"
  by (simp add: get_network_metrics_def Let_def)

text \<open>
  A coordinator that has recorded no vehicle reports 0 both for stops-per-vehicle and for
  the coordination quality: the guard on \<open>_vehicle_count\<close>, as the unit test of the initial
  metrics asserts.
\<close>

lemma quality_empty_accumulator:
  "stops_per_vehicle (get_network_metrics (new_coordinator net0)) = 0 \<and>
   coordination_quality (get_network_metrics (new_coordinator net0)) = 0"
  by (simp add: get_network_metrics_def new_coordinator_def)

text \<open>
  With at least one recorded vehicle and a non-negative stop total the quality lies in
  [0, 1] and is 1 when there is no stop.
\<close>

lemma coordination_quality_range:
  assumes "vehicle_count_acc c > 0" and "total_stops c \<ge> 0"
  shows "0 \<le> coordination_quality (get_network_metrics c)
       \<and> coordination_quality (get_network_metrics c) \<le> 1
       \<and> (total_stops c = 0 \<longrightarrow> coordination_quality (get_network_metrics c) = 1)"
proof -
  have nn: "0 \<le> stops_per_vehicle (get_network_metrics c)"
    using assms(1,2) by (rule spv_nonneg)
  have z: "total_stops c = 0 \<Longrightarrow> stops_per_vehicle (get_network_metrics c) = 0"
    by (simp add: get_network_metrics_def Let_def)
  show ?thesis
    using nn z assms by (auto simp: quality_cases [of c])
qed

text \<open>
  C8 at two accumulator states: one vehicle with one stop has 1 stop per vehicle and
  quality 1/2; after a second vehicle with two stops there are 3/2 stops per vehicle and
  the quality is 5/8. More stops per vehicle, higher quality: the score is not a
  decreasing function of stops-per-vehicle.
\<close>

theorem quality_rises_across_one_stop:
  "stops_per_vehicle (get_network_metrics (update_metrics 100 1 (new_coordinator net0))) = 1
   \<and> coordination_quality (get_network_metrics (update_metrics 100 1 (new_coordinator net0)))
       = 1 / 2
   \<and> stops_per_vehicle
        (get_network_metrics (update_metrics 100 2 (update_metrics 100 1 (new_coordinator net0))))
       = 3 / 2
   \<and> coordination_quality
        (get_network_metrics (update_metrics 100 2 (update_metrics 100 1 (new_coordinator net0))))
       = 5 / 8"
  by (simp add: get_network_metrics_def new_coordinator_def update_metrics_def)

section \<open>Offsets of a two-intersection network\<close>

lemma py_fmod_range: "0 < y \<Longrightarrow> 0 \<le> x \<Longrightarrow> 0 \<le> py_fmod x y \<and> py_fmod x y < y"
proof -
  assume y: "0 < y"
  from y have "of_int \<lfloor>x / y\<rfloor> * y \<le> x" by (rule floor_divide_lower)
  moreover from y have "x < (of_int \<lfloor>x / y\<rfloor> + 1) * y" by (rule floor_divide_upper)
  ultimately show ?thesis by (simp add: py_fmod_def algebra_simps)
qed

text \<open>
  C9, as stated, fails: with cycle time 100 at \<open>A\<close>, 60 at \<open>B\<close> and travel time 70, the
  offset of \<open>B\<close> is 70, which is neither 70 mod 60 nor below the cycle time of \<open>B\<close>.
\<close>

theorem offset_uses_upstream_cycle:
  "offset_of (calculate_offsets [((''A'', ''B''), 70)] (coord_ab 100 60)) ''B'' = Some 70
   \<and> cycle_time_of (controllers_reg (coord_ab 100 60)) ''B'' = 60
   \<and> py_fmod 70 60 = 10"
  by (simp add: offset_of_def calculate_offsets_def coord_ab_def new_coordinator_def net_ab_def
        cycle_time_of_def py_fmod_def fill_unprocessed_def Let_def)

text \<open>
  C9, amended: in a network of two intersections \<open>a\<close>, \<open>b\<close> (\<open>a\<close> first) with the single
  connection \<open>a \<rightarrow> b\<close> and travel time \<open>T\<close>, let \<open>C\<close> be the cycle time of the upstream
  intersection \<open>a\<close>. For \<open>C \<noteq> 0\<close>, \<open>calculate_offsets\<close> returns offset 0 for \<open>a\<close> and
  \<open>T mod C\<close> for \<open>b\<close>; for \<open>C = 0\<close> it raises \<open>ZeroDivisionError\<close>; for \<open>C > 0\<close> and
  \<open>T \<ge> 0\<close> the offset of \<open>b\<close> lies in [0, C).
\<close>

theorem two_node_offsets:
  assumes "a \<noteq> b"
    and "intersections (network_config c) = [a, b]"
    and "connections (network_config c) = [(a, b)]"
  shows "(cycle_time_of (controllers_reg c) a \<noteq> 0 \<longrightarrow>
            map_sum id fst (calculate_offsets [((a, b), T)] c)
              = Inr [a \<mapsto> 0, b \<mapsto> py_fmod T (cycle_time_of (controllers_reg c) a)])
       \<and> (cycle_time_of (controllers_reg c) a = 0 \<longrightarrow>
            calculate_offsets [((a, b), T)] c = Inl ZeroDivisionError)
       \<and> (0 < cycle_time_of (controllers_reg c) a \<and> 0 \<le> T \<longrightarrow>
            0 \<le> py_fmod T (cycle_time_of (controllers_reg c) a)
            \<and> py_fmod T (cycle_time_of (controllers_reg c) a)
                < cycle_time_of (controllers_reg c) a)"
proof (intro conjI impI)
  assume "cycle_time_of (controllers_reg c) a \<noteq> 0"
  with assms show "map_sum id fst (calculate_offsets [((a, b), T)] c)
              = Inr [a \<mapsto> 0, b \<mapsto> py_fmod T (cycle_time_of (controllers_reg c) a)]"
    by (auto simp: calculate_offsets_def fill_unprocessed_def Let_def)
next
  assume "cycle_time_of (controllers_reg c) a = 0"
  with assms show "calculate_offsets [((a, b), T)] c = Inl ZeroDivisionError"
    by (simp add: calculate_offsets_def Let_def)
next
  assume h: "0 < cycle_time_of (controllers_reg c) a \<and> 0 \<le> T"
  then show "0 \<le> py_fmod T (cycle_time_of (controllers_reg c) a)"
    using py_fmod_range [of "cycle_time_of (controllers_reg c) a" T] by simp
  from h show "py_fmod T (cycle_time_of (controllers_reg c) a)
                < cycle_time_of (controllers_reg c) a"
    using py_fmod_range [of "cycle_time_of (controllers_reg c) a" T] by simp
qed

theorem two_node_offsets_witness:
  "map_sum id fst (calculate_offsets [((''A'', ''B''), 70)] (coord_ab 60 60))
     = Inr [''A'' \<mapsto> 0, ''B'' \<mapsto> 10]
   \<and> 0 \<le> py_fmod 70 60 \<and> py_fmod 70 60 < (60::real)"
  using two_node_offsets [of "''A''" "''B''" "coord_ab 60 60" 70]
  by (simp add: coord_ab_def new_coordinator_def net_ab_def cycle_time_of_def py_fmod_def)

section \<open>Emergency preemption\<close>

lemma handle_emergency_states:
  "states s L = Some old \<Longrightarrow>
   states (handle_emergency t1 t2 t3 L s) =
     (\<lambda>l. if l = L then Some GREEN else map_option (\<lambda>_. RED) (states s l))"
  by (auto simp: handle_emergency_def create_emergency_plan_def Let_def fun_eq_iff)

text \<open>
  C2: for a configured lane \<open>L\<close> and any controller state, \<open>handle_emergency\<close> makes \<open>L\<close>
  green and every other configured lane red, keeps the lane set, and a second call for
  the same lane (at any later clock readings) leaves the state map as it is.
\<close>

theorem preemption_postcondition:
  assumes "L \<in> dom (get_current_states s)"
  shows "get_current_states (handle_emergency t1 t2 t3 L s) L = Some GREEN
       \<and> (\<forall>l \<in> dom (get_current_states s). l \<noteq> L \<longrightarrow>
             get_current_states (handle_emergency t1 t2 t3 L s) l = Some RED)
       \<and> dom (get_current_states (handle_emergency t1 t2 t3 L s)) = dom (get_current_states s)
       \<and> get_current_states (handle_emergency t4 t5 t6 L (handle_emergency t1 t2 t3 L s))
           = get_current_states (handle_emergency t1 t2 t3 L s)"
proof -
  from assms obtain old where o: "states s L = Some old"
    by (auto simp: get_current_states_def)
  let ?s' = "handle_emergency t1 t2 t3 L s"
  have s': "states ?s' = (\<lambda>l. if l = L then Some GREEN else map_option (\<lambda>_. RED) (states s l))"
    using o by (rule handle_emergency_states)
  then have g: "states ?s' L = Some GREEN" by simp
  have s'': "states (handle_emergency t4 t5 t6 L ?s')
           = (\<lambda>l. if l = L then Some GREEN else map_option (\<lambda>_. RED) (states ?s' l))"
    using g by (rule handle_emergency_states)
  have idem: "states (handle_emergency t4 t5 t6 L ?s') = states ?s'"
    unfolding s'' unfolding s' by (auto simp: fun_eq_iff option.map_comp comp_def)
  have d: "dom (states ?s') = dom (states s)"
    unfolding s' using o by (auto simp: dom_def)
  show ?thesis
    unfolding get_current_states_def using g idem d s' by auto
qed

theorem preemption_postcondition_witness:
  "get_current_states (handle_emergency 5 5 5 ''north'' two_lanes) ''north'' = Some GREEN
   \<and> get_current_states (handle_emergency 5 5 5 ''north'' two_lanes) ''south'' = Some RED
   \<and> get_current_states (handle_emergency 9 9 9 ''north'' (handle_emergency 5 5 5 ''north'' two_lanes))
       = get_current_states (handle_emergency 5 5 5 ''north'' two_lanes)"
  using preemption_postcondition [of "''north''" two_lanes 5 5 5 9 9 9]
  by (simp add: two_lanes_def get_current_states_def new_controller_def)


section \<open>Emergency for an unconfigured lane\<close>

text \<open>
  \<open>override_wf\<close> holds of a new controller and is kept by every operation that returns.
\<close>

lemma override_wf_new: "override_wf (new_controller cfg)"
  by (simp add: override_wf_def new_controller_def)

lemma override_wf_handle_emergency:
  "override_wf s \<Longrightarrow> override_wf (handle_emergency t1 t2 t3 L s)"
  by (auto simp: override_wf_def handle_emergency_def create_emergency_plan_def Let_def
           split: option.splits)

lemma override_wf_override_signal:
  "override_signal t1 t2 L st d s = Inr s' \<Longrightarrow> override_wf s'"
  by (auto simp: override_wf_def override_signal_def split: option.splits)

lemma override_wf_allocate_time:
  "allocate_time t1 t2 ld s = Inr (plan, s') \<Longrightarrow> override_wf s \<Longrightarrow> override_wf s'"
  by (auto simp: override_wf_def allocate_time_def allocate_normal_def create_emergency_plan_def
        create_phases_def Let_def split: option.splits sum.splits if_splits prod.splits)

lemma override_wf_advance:
  "advance_to_next_lane s = Inr s' \<Longrightarrow> override_wf s \<Longrightarrow> override_wf s'"
  by (auto simp: override_wf_def advance_to_next_lane_def split: list.splits option.splits)

lemma override_wf_base:
  "base_update_state e s = Inr s' \<Longrightarrow> override_wf s \<Longrightarrow> override_wf s'"
  by (auto simp: base_update_state_def Let_def split: option.splits if_splits
        dest!: override_wf_advance simp: override_wf_def)

lemma override_wf_run_plan:
  "run_plan now e s = Inr (trs, s') \<Longrightarrow> override_wf s \<Longrightarrow> override_wf s'"
  by (auto simp: run_plan_def fallback_update_def Let_def split_beta
        split: option.splits if_splits sum.splits dest: override_wf_base simp: override_wf_def)

lemma override_wf_update_state:
  "update_state now e s = Inr (trs, s') \<Longrightarrow> override_wf s \<Longrightarrow> override_wf s'"
  apply (auto simp: update_state_def Let_def clear_emergency_def
        split: option.splits if_splits dest!: override_wf_run_plan)
  apply (auto simp: override_wf_def)
  done

lemma update_state_during_hold:
  assumes "emergency_active s" "emergency_start_time s = Some t0" "now - t0 < 30" "override_wf s"
  shows "\<exists>s'. update_state now e s = Inr ([], s') \<and> states s' = states s
           \<and> transition_history s' = transition_history s
           \<and> emergency_active s' \<and> emergency_start_time s' = Some t0 \<and> override_wf s'"
  using assms
  by (auto simp: update_state_def override_wf_def emergency_expired_def Let_def split: option.splits)

lemma update_all_during_hold:
  assumes "emergency_active s" "emergency_start_time s = Some t0" "override_wf s"
    and "\<forall>c \<in> set calls. fst c - t0 < 30"
  shows "\<exists>s'. update_all calls s = Inr (replicate (length calls) [], s') \<and> states s' = states s
           \<and> transition_history s' = transition_history s"
  using assms
proof (induction calls arbitrary: s)
  case Nil
  then show ?case by simp
next
  case (Cons c calls)
  obtain now e where c: "c = (now, e)" by (cases c)
  from Cons.prems c have "now - t0 < 30" by simp
  from update_state_during_hold [OF Cons.prems(1,2) this Cons.prems(3), of e]
  obtain s1 where s1: "update_state now e s = Inr ([], s1)" "states s1 = states s"
      "transition_history s1 = transition_history s"
      "emergency_active s1" "emergency_start_time s1 = Some t0" "override_wf s1"
    by blast
  from Cons.IH [OF s1(4,5,6)] Cons.prems(4)
  obtain s2 where "update_all calls s1 = Inr (replicate (length calls) [], s2)"
      "states s2 = states s1" "transition_history s2 = transition_history s1"
    by auto
  with s1 c show ?case by simp
qed

text \<open>
  C10: for a lane \<open>L\<close> that is not configured, \<open>handle_emergency\<close> changes no lane state
  and records no transition, yet activates the hold; every following \<open>update_state\<close> call
  whose clock reading is less than 30 seconds after the start of the hold returns the
  empty transition list and changes no lane state.
\<close>

theorem unknown_lane_emergency_holds:
  assumes "L \<notin> dom (states s)"
    and "override_wf s"
    and "\<forall>c \<in> set calls. fst c - t_start < 30"
  shows "states (handle_emergency t_start t_plan t_tr L s) = states s
       \<and> transition_history (handle_emergency t_start t_plan t_tr L s) = transition_history s
       \<and> emergency_active (handle_emergency t_start t_plan t_tr L s)
       \<and> (\<exists>s'. update_all calls (handle_emergency t_start t_plan t_tr L s)
                  = Inr (replicate (length calls) [], s')
              \<and> states s' = states s \<and> transition_history s' = transition_history s)"
proof -
  let ?h = "handle_emergency t_start t_plan t_tr L s"
  from assms(1) have n: "states s L = None" by auto
  then have h: "?h = s\<lparr>emergency_active := True, emergency_lane := Some L,
                       emergency_start_time := Some t_start,
                       current_plan := Some \<lparr>phases = [\<lparr>phase_type = EMERGENCY, lanes = [L],
                           duration = 30, state = GREEN\<rparr>], total_cycle_time = 30,
                           emergency_override = True\<rparr>,
                       current_phase_index := 0, phase_start_time := t_plan\<rparr>"
    by (simp add: handle_emergency_def create_emergency_plan_def Let_def)
  have a: "emergency_active ?h" "emergency_start_time ?h = Some t_start" "states ?h = states s"
    "transition_history ?h = transition_history s"
    by (simp_all add: h)
  have w: "override_wf ?h" using assms(2) by (simp add: h override_wf_def)
  from update_all_during_hold [OF a(1,2) w assms(3)] a
  show ?thesis by auto
qed

theorem unknown_lane_emergency_holds_witness:
  "states (handle_emergency 100 100 100 ''west'' two_lanes) = states two_lanes
   \<and> (\<exists>s'. update_all [(101, 1), (115, 14), (129, 14)] (handle_emergency 100 100 100 ''west'' two_lanes)
              = Inr ([[], [], []], s') \<and> states s' = states two_lanes)"
proof -
  have a: "''west'' \<notin> dom (states two_lanes)"
    by (simp add: two_lanes_def new_controller_def)
  have b: "override_wf two_lanes"
    by (simp add: two_lanes_def new_controller_def override_wf_def)
  have c: "\<forall>c \<in> set [(101, 1), (115, 14), (129::real, 14::real)]. fst c - 100 < 30"
    by simp
  from unknown_lane_emergency_holds [OF a b c, of 100 100] show ?thesis
    by auto
qed


section \<open>Fairness boost\<close>

lemma fairness_boost_never_green:
  "lgt L = None \<Longrightarrow> fairness_boost_of cfg lgt now L = 0"
  by (simp add: fairness_boost_of_def)

text \<open>
  C6, as stated, fails: a lane that has never been green has no recorded last-green time
  and gets no boost however long it waits; with zero demand its priority stays 0, below
  a lane with one vehicle.
\<close>

theorem never_green_lane_gets_no_boost:
  "fairness_boost_of default_config Map.empty 1000000 ''north'' = 0
   \<and> spec_fairness_boost default_config (1000000 - 0) = 1499820
   \<and> calculate_priorities (new_controller default_config) 1000000
        [(''north'', lane_demand 0), (''south'', lane_demand 1)]
       = [(''north'', 0), (''south'', 1)]"
  by (simp add: fairness_boost_of_def spec_fairness_boost_def default_config_def
       calculate_priorities_def lane_priority_def lane_demand_def new_controller_def
       type_weight_of_def)

lemma fairness_boost_recorded:
  assumes "lgt L = Some lg" and "0 < lg" and "0 \<le> fairness_boost_factor cfg"
  shows "fairness_boost_of cfg lgt now L = spec_fairness_boost cfg (now - lg)"
proof (cases "fairness_threshold cfg < now - lg")
  case True
  then have "0 \<le> (now - lg - fairness_threshold cfg) * fairness_boost_factor cfg"
    using assms(3) by simp
  with True assms(1,2) show ?thesis
    by (simp add: fairness_boost_of_def spec_fairness_boost_def Let_def max_def)
next
  case False
  then have "(now - lg - fairness_threshold cfg) * fairness_boost_factor cfg \<le> 0"
    using assms(3) by (simp add: mult_nonpos_nonneg)
  with False assms(1,2) show ?thesis
    by (simp add: fairness_boost_of_def spec_fairness_boost_def Let_def max_def)
qed

lemma lane_priority_demand_boost:
  "lane_priority cfg lgt now L d = max 0 (demand_score d + fairness_boost_of cfg lgt now L)"
  by (simp add: lane_priority_def demand_score_def Let_def)

text \<open>
  C6, amended: for a lane \<open>L\<close> with a recorded last-green time \<open>lg > 0\<close> and a non-negative
  boost factor, at every clock reading and for every lane data the boost is
  \<open>max 0 ((now - lg - threshold) * factor)\<close> and the priority is the demand terms plus that
  boost, floored at 0; this is the priority \<open>_calculate_priorities\<close> returns for the lane.
  With a positive factor, such a lane with non-negative demand terms (zero demand
  included) exceeds any static priority \<open>P \<ge> 0\<close> once
  \<open>now > lg + threshold + P / factor\<close>. A lane without a recorded last-green time gets
  boost 0.
\<close>

theorem fairness_boost_after_green:
  assumes "lgt L = Some lg" and "0 < lg" and "0 \<le> fairness_boost_factor cfg"
  shows "fairness_boost_of cfg lgt now L = spec_fairness_boost cfg (now - lg)
       \<and> lane_priority cfg lgt now L d = spec_priority cfg (now - lg) d
       \<and> (config s = cfg \<and> last_green_times s = lgt \<and> (L, d) \<in> set lane_data \<longrightarrow>
            (L, spec_priority cfg (now - lg) d) \<in> set (calculate_priorities s now lane_data))
       \<and> (0 < fairness_boost_factor cfg \<and> 0 \<le> P \<and> 0 \<le> demand_score d
            \<and> lg + fairness_threshold cfg + P / fairness_boost_factor cfg < now
            \<longrightarrow> P < lane_priority cfg lgt now L d)
       \<and> (lgt L' = None \<longrightarrow> fairness_boost_of cfg lgt now L' = 0)"
proof -
  let ?f = "fairness_boost_factor cfg"
  have b: "fairness_boost_of cfg lgt now L = spec_fairness_boost cfg (now - lg)"
    using assms by (rule fairness_boost_recorded)
  have lp: "lane_priority cfg lgt now L d = spec_priority cfg (now - lg) d"
    by (simp add: lane_priority_demand_boost b spec_priority_def)
  have cp: "config s = cfg \<and> last_green_times s = lgt \<and> (L, d) \<in> set lane_data \<longrightarrow>
            (L, spec_priority cfg (now - lg) d) \<in> set (calculate_priorities s now lane_data)"
  proof
    assume h: "config s = cfg \<and> last_green_times s = lgt \<and> (L, d) \<in> set lane_data"
    then have "(L, lane_priority (config s) (last_green_times s) now L d)
                 \<in> set (calculate_priorities s now lane_data)"
      by (force simp: calculate_priorities_def)
    with h lp show "(L, spec_priority cfg (now - lg) d) \<in> set (calculate_priorities s now lane_data)"
      by simp
  qed
  have out: "0 < ?f \<and> 0 \<le> P \<and> 0 \<le> demand_score d
            \<and> lg + fairness_threshold cfg + P / ?f < now
            \<longrightarrow> P < lane_priority cfg lgt now L d"
  proof
    assume h: "0 < ?f \<and> 0 \<le> P \<and> 0 \<le> demand_score d
            \<and> lg + fairness_threshold cfg + P / ?f < now"
    then have "P / ?f < now - lg - fairness_threshold cfg" by linarith
    with h have big: "P < (now - lg - fairness_threshold cfg) * ?f"
      by (simp add: pos_divide_less_eq)
    have "(now - lg - fairness_threshold cfg) * ?f \<le> spec_fairness_boost cfg (now - lg)"
      by (simp add: spec_fairness_boost_def)
    with big h have "P < demand_score d + spec_fairness_boost cfg (now - lg)" by linarith
    then show "P < lane_priority cfg lgt now L d"
      by (simp add: lp spec_priority_def)
  qed
  have ng: "lgt L' = None \<longrightarrow> fairness_boost_of cfg lgt now L' = 0"
    by (simp add: fairness_boost_never_green)
  from b lp cp out ng show ?thesis by blast
qed

theorem fairness_boost_after_green_witness:
  "fairness_boost_of default_config [''north'' \<mapsto> 100] 150 ''north'' = 0
   \<and> lane_priority default_config [''north'' \<mapsto> 100] 1000 ''north'' (lane_demand 3) = 1173
   \<and> 50 < lane_priority default_config [''north'' \<mapsto> 100] 1000 ''north'' (lane_demand 0)
   \<and> fairness_boost_of default_config [''north'' \<mapsto> 100] 1000 ''south'' = 0"
  using fairness_boost_after_green [of "[''north'' \<mapsto> 100]" "''north''" 100 default_config
          150 "lane_demand 3" "new_controller default_config" "[]" 50 "''south''"]
        fairness_boost_after_green [of "[''north'' \<mapsto> 100]" "''north''" 100 default_config
          1000 "lane_demand 3" "new_controller default_config" "[]" 50 "''south''"]
        fairness_boost_after_green [of "[''north'' \<mapsto> 100]" "''north''" 100 default_config
          1000 "lane_demand 0" "new_controller default_config" "[]" 50 "''south''"]
  by (simp add: default_config_def spec_fairness_boost_def spec_priority_def demand_score_def
        lane_demand_def type_weight_of_def)

section \<open>Evaluating an allocation\<close>

lemmas alloc_defs = allocate_time_def first_emergency_lane_def allocate_normal_def
     calculate_priorities_def lane_priority_def type_weight_of_def fairness_boost_of_def
     allocate_green_times_def green_time_for_def py_int_def create_phases_def through_phases_def
     pedestrian_phases_def turn_phases_def enforce_cycle_time_def scale_phases_def

lemmas update_defs = update_state_def run_plan_def fallback_update_def base_update_state_def
     emergency_expired_def clear_emergency_def

lemma allocate_3_1:
  "config s = default_config \<Longrightarrow> last_green_times s = Map.empty \<Longrightarrow>
   pending_pedestrian_phases s = [] \<Longrightarrow> pending_turn_phases s = [] \<Longrightarrow>
   allocate_time t1 t2 demand_3_1 s
     = Inr (plan_3_1, s\<lparr>pending_pedestrian_phases := [], pending_turn_phases := [],
              current_plan := Some plan_3_1, current_phase_index := 0, phase_start_time := t2\<rparr>)"
  by (simp add: alloc_defs demand_3_1_def lane_demand_def default_config_def plan_3_1_def Let_def)

section \<open>Mutual exclusion\<close>

text \<open>
  C1 at a concrete run: both lanes start red; a plan is allocated and driven until north is
  red again and south is green; a second \<open>allocate_time\<close> replaces the plan without
  touching the lane states, and the next completed phase turns north yellow while south
  is still green.
\<close>

theorem reallocation_breaks_mutual_exclusion:
  "map_sum id (\<lambda>(outs, s). (states s ''north'', states s ''south''))
     (run [((0, 0), AllocateTime demand_3_1),
           ((45, 45), UpdateState 45),
           ((48, 48), UpdateState 3),
           ((50, 50), AllocateTime demand_3_1),
           ((95, 95), UpdateState 45)] all_red)
   = Inr (Some YELLOW, Some GREEN)"
  by (simp add: allocate_3_1 all_red_def new_controller_def update_defs plan_3_1_def Let_def)

section \<open>Emergency short-circuit of allocate_time\<close>

lemma find_Some_list_ex: "find P xs = Some x \<Longrightarrow> list_ex P xs"
  by (induction xs) (auto split: if_splits)

lemma emergency_short_circuit:
  assumes "first_emergency_lane lane_data = Some L" and "L \<noteq> []"
  shows "allocate_time t_prio t_plan lane_data s = Inr (create_emergency_plan t_plan L s)"
proof -
  from assms(1) obtain x where "find (\<lambda>(lname, data). has_emergency data) lane_data = Some x"
    by (auto simp: first_emergency_lane_def)
  then have "list_ex (\<lambda>(lname, data). has_emergency data) lane_data"
    by (rule find_Some_list_ex)
  with assms show ?thesis by (simp add: allocate_time_def)
qed

text \<open>
  C3 at a lane whose name is the empty string: the lane has an emergency, yet
  \<open>allocate_time\<close> returns an ordinary two-phase plan with \<open>emergency_override\<close> false.
\<close>

theorem empty_named_emergency_lane_not_preempted:
  "map_sum id fst
     (allocate_time t_prio t_plan [('''', (lane_demand 0)\<lparr>has_emergency := True\<rparr>)]
        (new_controller default_config))
   = Inr \<lparr>phases =
            [\<lparr>phase_type = THROUGH, lanes = [''''], duration = 400 / 13, state = GREEN\<rparr>,
             \<lparr>phase_type = THROUGH, lanes = [''''], duration = 120 / 13, state = YELLOW\<rparr>],
          total_cycle_time = 40, emergency_override = False\<rparr>"
  by (simp add: alloc_defs new_controller_def default_config_def lane_demand_def Let_def)

section \<open>Degenerate inputs of allocate_time\<close>

lemma zero_priority_fallback:
  "sum_list (map snd prios) = 0 \<Longrightarrow>
   allocate_green_times cfg prios lane_data
     = Inr (map (\<lambda>(lname, p). (lname, min_green cfg)) prios)"
  by (simp add: allocate_green_times_def)

text \<open>
  C5 at the empty lane-data map: with the default configuration and no pending phases the
  phase list is empty, its duration sum is 0, and the rescaling divides by it.
\<close>

theorem empty_lane_data_raises:
  "allocate_time t_prio t_plan [] (new_controller default_config) = Inl ZeroDivisionError"
  by (simp add: alloc_defs new_controller_def default_config_def Let_def)

section \<open>Green-time and cycle-time bounds\<close>


















section \<open>Dependence on the clock\<close>

text \<open>
  C7, as stated, fails: two runs issue the same calls with the same arguments; the clock
  reads 1 at the \<open>update_state\<close> of the first run and 50 at that of the second; the
  first returns no transition, the second two.
\<close>

theorem clock_decides_transitions:
  "map snd [((0, 0), AllocateTime demand_3_1), ((1, 1), UpdateState 1)]
     = map snd [((0, 0), AllocateTime demand_3_1), ((50, 50), UpdateState 1)]
   \<and> map_sum id fst (run [((0, 0), AllocateTime demand_3_1), ((1, 1), UpdateState 1)] all_red)
       = Inr [PlanOut plan_3_1, TransitionsOut []]
   \<and> map_sum id fst (run [((0, 0), AllocateTime demand_3_1), ((50, 50), UpdateState 1)] all_red)
       = Inr [PlanOut plan_3_1,
              TransitionsOut
                [\<lparr>lane = ''north'', old_state = RED, new_state = YELLOW, timestamp = 50\<rparr>,
                 \<lparr>lane = ''north'', old_state = YELLOW, new_state = YELLOW, timestamp = 50\<rparr>]]"
  by (simp add: allocate_3_1 all_red_def new_controller_def update_defs plan_3_1_def Let_def)

lemma run_plan_active:
  "plan_active s \<Longrightarrow> run_plan now e1 s = run_plan now e2 s"
  by (auto simp: plan_active_def run_plan_def split: option.splits)

lemma plan_active_flags [simp]:
  "plan_active (clear_emergency s) = plan_active s"
  "plan_active (s\<lparr>manual_override_active := a, manual_override_lane := b\<rparr>) = plan_active s"
  by (simp_all add: plan_active_def clear_emergency_def split: option.splits)

text \<open>
  C7, amended: while a plan is active the result of \<open>update_state\<close> is fixed by the state
  and the clock reading and does not depend on \<open>elapsed_time\<close>; with no plan active and no
  override or emergency the result is fixed by the state and \<open>elapsed_time\<close> and does not
  depend on the clock reading.
\<close>

theorem update_state_clock_dependence:
  "(plan_active s \<longrightarrow> update_state now e1 s = update_state now e2 s)
   \<and> (\<not> plan_active s \<and> \<not> manual_override_active s \<and> \<not> emergency_active s
        \<longrightarrow> update_state now1 e s = update_state now2 e s)"
proof (intro conjI impI)
  assume a: "plan_active s"
  show "update_state now e1 s = update_state now e2 s"
    unfolding update_state_def Let_def
    using a by (auto split: option.splits intro!: run_plan_active)
next
  assume "\<not> plan_active s \<and> \<not> manual_override_active s \<and> \<not> emergency_active s"
  then show "update_state now1 e s = update_state now2 e s"
    by (auto simp: update_state_def plan_active_def run_plan_def split: option.splits)
qed

theorem update_state_clock_dependence_witness:
  "plan_active mid_plan \<and> update_state 50 1 mid_plan = update_state 50 99 mid_plan
   \<and> \<not> plan_active all_red \<and> update_state 1 5 all_red = update_state 2 5 all_red"
  using update_state_clock_dependence [of mid_plan 50 1 99]
        update_state_clock_dependence [of all_red 1 5 2]
  by (simp add: plan_active_def mid_plan_def all_red_def new_controller_def plan_3_1_def)

end
